theory Spec2Isabelle
  imports Main
begin

section \<open>Values, errors and observable effects\<close>

text \<open>
  The catalog endpoints answer with JSON, which \<^verbatim>\<open>response.json()\<close> parses into Python
  values. A parsed object is kept as the association list of its keys (\<open>map_of\<close> reads it);
  JSON numbers are modelled as integers.
\<close>

datatype json =
    JNull
  | JBool bool
  | JInt int
  | JStr string
  | JArr "json list"
  | JObj "(string \<times> json) list"

text \<open>The exceptions that can leave the methods of \<^verbatim>\<open>ModelUpdater\<close>.\<close>

datatype error =
    KeyError
  | TypeError
  | OSError
  | DownloadError

text \<open>
  What a name is as a member of a Python set or a key of a Python dict: \<^verbatim>\<open>True == 1\<close> and
  \<^verbatim>\<open>False == 0\<close> hash alike, lists and dicts are unhashable.
\<close>

datatype key = KNone | KInt int | KStr string

fun key_of :: "json \<Rightarrow> error + key" where
  "key_of JNull = Inr KNone"
| "key_of (JBool b) = Inr (KInt (if b then 1 else 0))"
| "key_of (JInt i) = Inr (KInt i)"
| "key_of (JStr s) = Inr (KStr s)"
| "key_of (JArr xs) = Inl TypeError"
| "key_of (JObj kvs) = Inl TypeError"

text \<open>\<^verbatim>\<open>model_info['name']\<close>: a missing key raises KeyError, subscripting anything that is
  not a dict with a string raises TypeError.\<close>

fun getitem :: "json \<Rightarrow> string \<Rightarrow> error + json" where
  "getitem (JObj kvs) k = (case map_of kvs k of None \<Rightarrow> Inl KeyError | Some v \<Rightarrow> Inr v)"
| "getitem JNull k = Inl TypeError"
| "getitem (JBool b) k = Inl TypeError"
| "getitem (JInt i) k = Inl TypeError"
| "getitem (JStr s) k = Inl TypeError"
| "getitem (JArr xs) k = Inl TypeError"

text \<open>\<^verbatim>\<open>'vae' in model_info\<close>, for a \<^verbatim>\<open>model_info\<close> that has already been subscripted with
  \<^verbatim>\<open>'name'\<close> and so is a dict.\<close>

fun has_key :: "json \<Rightarrow> string \<Rightarrow> bool" where
  "has_key (JObj kvs) k = (map_of kvs k \<noteq> None)"
| "has_key JNull k = False"
| "has_key (JBool b) k = False"
| "has_key (JInt i) k = False"
| "has_key (JStr s) k = False"
| "has_key (JArr xs) k = False"

text \<open>\<^verbatim>\<open>model_size_mb * 1024\<close>: numbers multiply, strings and lists repeat, None and dicts
  raise TypeError.\<close>

fun py_mul :: "json \<Rightarrow> int \<Rightarrow> error + json" where
  "py_mul (JInt i) n = Inr (JInt (i * n))"
| "py_mul (JBool b) n = Inr (JInt ((if b then 1 else 0) * n))"
| "py_mul (JStr s) n = Inr (JStr (concat (replicate (nat n) s)))"
| "py_mul (JArr xs) n = Inr (JArr (concat (replicate (nat n) xs)))"
| "py_mul JNull n = Inl TypeError"
| "py_mul (JObj kvs) n = Inl TypeError"

text \<open>\<^verbatim>\<open>file_name.endswith('.safetensors')\<close> and \<^verbatim>\<open>file_name.rsplit('.', 1)[0]\<close>.\<close>

definition endswith :: "string \<Rightarrow> string \<Rightarrow> bool" where
  "endswith s suf = (length suf \<le> length s \<and> drop (length s - length suf) s = suf)"

definition rsplit_dot_head :: "string \<Rightarrow> string" where
  "rsplit_dot_head s =
     (if CHR ''.'' \<in> set s
      then rev (tl (dropWhile (\<lambda>c. c \<noteq> CHR ''.'') (rev s)))
      else s)"

text \<open>
  What a pass lets the outside see, in order: the log lines and prints of the source, and
  each call of \<^verbatim>\<open>download_file\<close> with its url, file name and size argument.
\<close>

datatype event =
    LogWarningUnexpectedFormat string
  | LogErrorFailedToFetch string
  | PrintMissing "key set"
  | PrintDownloading json
  | CallDownloadFile json string json
  | PrintCouldNotFetch
  | PrintUpdatesCompleted
  | PrintNoUpdatesRequired
  | PrintCompletedFor json
  | PrintNotFound string

section \<open>The updater's state and its collaborators\<close>

text \<open>
  \<open>fs\<close> is the file system as the collaborators see it, \<open>vae_configs\<close> and
  \<open>model_configs\<close> are the two partitions \<^verbatim>\<open>self.config['vae_configs']\<close> and
  \<^verbatim>\<open>self.config['model_configs']\<close>, \<open>trace\<close> collects the events.
\<close>

record 'fs state =
  fs :: 'fs
  vae_configs :: "key \<rightharpoonup> json"
  model_configs :: "key \<rightharpoonup> json"
  trace :: "event list"

text \<open>What \<^verbatim>\<open>session.get(url)\<close>, \<^verbatim>\<open>raise_for_status()\<close> and \<^verbatim>\<open>response.json()\<close> give for one
  url: a \<^verbatim>\<open>RequestException\<close> (a connection error, a bad status, a body that is not JSON), or
  the parsed body.\<close>

datatype response = RequestException | Payload json

text \<open>
  Everything the updater calls and does not define. \<open>listdir\<close> is
  \<^verbatim>\<open>os.listdir(self.models_directory)\<close>; \<open>path_exists fs file_name\<close> is
  \<^verbatim>\<open>os.path.exists(os.path.join(self.models_directory, file_name))\<close>; \<open>py_str\<close> is what an
  f-string makes of a name that is not a string. \<open>download_file fs url file_name size\<close> is
  \<^verbatim>\<open>utils.file_utils.download_file\<close>, which is not among the sources: it is taken as it
  comes, returning the file system it leaves and the exception it raised, if any.
\<close>

record 'fs world =
  model_config_url :: string
  vae_config_url :: string
  model_config_response :: response
  vae_config_response :: response
  listdir :: "'fs \<Rightarrow> error + string list"
  path_exists :: "'fs \<Rightarrow> string \<Rightarrow> bool"
  download_file :: "'fs \<Rightarrow> json \<Rightarrow> string \<Rightarrow> json \<Rightarrow> error option \<times> 'fs"
  py_str :: "json \<Rightarrow> string"

definition emit :: "event \<Rightarrow> 'fs state \<Rightarrow> 'fs state" where
  "emit e s = s\<lparr>trace := trace s @ [e]\<rparr>"

section \<open>The methods of ModelUpdater\<close>

subsection \<open>fetch_remote_model_list\<close>

text \<open>The loop over the two urls, carrying \<^verbatim>\<open>combined_models\<close>. A RequestException returns
  None at once; a body that is not a list is logged and skipped.\<close>

fun fetch_loop :: "(string \<times> response) list \<Rightarrow> json list \<Rightarrow> 'fs state \<Rightarrow> json list option \<times> 'fs state" where
  "fetch_loop [] combined_models s = (Some combined_models, s)"
| "fetch_loop ((url, RequestException) # urls) combined_models s =
     (None, emit (LogErrorFailedToFetch url) s)"
| "fetch_loop ((url, Payload (JArr models)) # urls) combined_models s =
     fetch_loop urls (combined_models @ models) s"
| "fetch_loop ((url, Payload JNull) # urls) combined_models s =
     fetch_loop urls combined_models (emit (LogWarningUnexpectedFormat url) s)"
| "fetch_loop ((url, Payload (JBool b)) # urls) combined_models s =
     fetch_loop urls combined_models (emit (LogWarningUnexpectedFormat url) s)"
| "fetch_loop ((url, Payload (JInt i)) # urls) combined_models s =
     fetch_loop urls combined_models (emit (LogWarningUnexpectedFormat url) s)"
| "fetch_loop ((url, Payload (JStr t)) # urls) combined_models s =
     fetch_loop urls combined_models (emit (LogWarningUnexpectedFormat url) s)"
| "fetch_loop ((url, Payload (JObj kvs)) # urls) combined_models s =
     fetch_loop urls combined_models (emit (LogWarningUnexpectedFormat url) s)"

definition fetch_remote_model_list :: "'fs world \<Rightarrow> 'fs state \<Rightarrow> json list option \<times> 'fs state" where
  "fetch_remote_model_list w s =
     fetch_loop [(model_config_url w, model_config_response w),
                 (vae_config_url w, vae_config_response w)] [] s"

subsection \<open>is_update_required\<close>

text \<open>The set comprehension over the remote list: the first record without a usable name
  raises.\<close>

fun remote_model_names :: "json list \<Rightarrow> error + key set" where
  "remote_model_names [] = Inr {}"
| "remote_model_names (model_info # rest) =
     (case getitem model_info ''name'' of
        Inl e \<Rightarrow> Inl e
      | Inr n \<Rightarrow>
          (case key_of n of
             Inl e \<Rightarrow> Inl e
           | Inr k \<Rightarrow>
               (case remote_model_names rest of
                  Inl e \<Rightarrow> Inl e
                | Inr ks \<Rightarrow> Inr (insert k ks))))"

definition local_model_names :: "string list \<Rightarrow> key set" where
  "local_model_names local_files =
     set (map (\<lambda>f. KStr (rsplit_dot_head f))
            (filter (\<lambda>f. endswith f ''.safetensors'') local_files))"

definition is_update_required :: "'fs world \<Rightarrow> 'fs state \<Rightarrow> json list \<Rightarrow> (error + bool) \<times> 'fs state" where
  "is_update_required w s remote_model_list =
     (case listdir w (fs s) of
        Inl e \<Rightarrow> (Inl e, s)
      | Inr local_files \<Rightarrow>
          (case remote_model_names remote_model_list of
             Inl e \<Rightarrow> (Inl e, s)
           | Inr remote_names \<Rightarrow>
               (let missing_models = remote_names - local_model_names local_files
                in if missing_models \<noteq> {}
                   then (Inr True, emit (PrintMissing missing_models) s)
                   else (Inr False, s))))"

subsection \<open>download_single_model and update_config_single_model\<close>

definition file_name_of :: "'fs world \<Rightarrow> json \<Rightarrow> string" where
  "file_name_of w model_name =
     (case model_name of JStr n \<Rightarrow> n | _ \<Rightarrow> py_str w model_name) @ ''.safetensors''"

definition download_single_model :: "'fs world \<Rightarrow> 'fs state \<Rightarrow> json \<Rightarrow> (error + unit) \<times> 'fs state" where
  "download_single_model w s model_info =
     (case getitem model_info ''name'' of
        Inl e \<Rightarrow> (Inl e, s)
      | Inr model_name \<Rightarrow>
     (case getitem model_info ''file_url'' of
        Inl e \<Rightarrow> (Inl e, s)
      | Inr model_url \<Rightarrow>
     (case getitem model_info ''size_mb'' of
        Inl e \<Rightarrow> (Inl e, s)
      | Inr model_size_mb \<Rightarrow>
     (let file_name = file_name_of w model_name in
      if \<not> path_exists w (fs s) file_name then
        (let s1 = emit (PrintDownloading model_name) s in
         case py_mul model_size_mb 1024 of
           Inl e \<Rightarrow> (Inl e, s1)
         | Inr kb \<Rightarrow>
        (case py_mul kb 1024 of
           Inl e \<Rightarrow> (Inl e, s1)
         | Inr total_size \<Rightarrow>
        (let (raised, fs') = download_file w (fs s1) model_url file_name total_size;
             s2 = emit (CallDownloadFile model_url file_name total_size) (s1\<lparr>fs := fs'\<rparr>)
         in case raised of
              Some e \<Rightarrow> (Inl e, s2)
            | None \<Rightarrow> (Inr (), s2))))
      else (Inr (), s)))))"

definition update_config_single_model :: "'fs state \<Rightarrow> json \<Rightarrow> (error + unit) \<times> 'fs state" where
  "update_config_single_model s model_info =
     (case getitem model_info ''name'' of
        Inl e \<Rightarrow> (Inl e, s)
      | Inr model_name \<Rightarrow>
          (case key_of model_name of
             Inl e \<Rightarrow> (Inl e, s)
           | Inr k \<Rightarrow>
               if has_key model_info ''vae'' then
                 (if vae_configs s k = None
                  then (Inr (), s\<lparr>vae_configs := (vae_configs s)(k \<mapsto> model_info)\<rparr>)
                  else (Inr (), s))
               else
                 (if model_configs s k = None
                  then (Inr (), s\<lparr>model_configs := (model_configs s)(k \<mapsto> model_info)\<rparr>)
                  else (Inr (), s))))"

subsection \<open>The two loops\<close>

fun download_new_models :: "'fs world \<Rightarrow> 'fs state \<Rightarrow> json list \<Rightarrow> (error + unit) \<times> 'fs state" where
  "download_new_models w s [] = (Inr (), s)"
| "download_new_models w s (model_info # rest) =
     (case download_single_model w s model_info of
        (Inl e, s') \<Rightarrow> (Inl e, s')
      | (Inr u, s') \<Rightarrow> download_new_models w s' rest)"

fun update_configs :: "'fs state \<Rightarrow> json list \<Rightarrow> (error + unit) \<times> 'fs state" where
  "update_configs s [] = (Inr (), s)"
| "update_configs s (model_info # rest) =
     (case update_config_single_model s model_info of
        (Inl e, s') \<Rightarrow> (Inl e, s')
      | (Inr u, s') \<Rightarrow> update_configs s' rest)"

subsection \<open>update_models\<close>

text \<open>\<^verbatim>\<open>if not remote_model_list\<close> holds for None and for the empty list alike.\<close>

definition update_models :: "'fs world \<Rightarrow> 'fs state \<Rightarrow> (error + unit) \<times> 'fs state" where
  "update_models w s =
     (case fetch_remote_model_list w s of
        (None, s0) \<Rightarrow> (Inr (), emit PrintCouldNotFetch s0)
      | (Some [], s0) \<Rightarrow> (Inr (), emit PrintCouldNotFetch s0)
      | (Some (m # ms), s0) \<Rightarrow>
          (case is_update_required w s0 (m # ms) of
             (Inl e, s1) \<Rightarrow> (Inl e, s1)
           | (Inr False, s1) \<Rightarrow> (Inr (), emit PrintNoUpdatesRequired s1)
           | (Inr True, s1) \<Rightarrow>
               (case download_new_models w s1 (m # ms) of
                  (Inl e, s2) \<Rightarrow> (Inl e, s2)
                | (Inr u, s2) \<Rightarrow>
                    (case update_configs s2 (m # ms) of
                       (Inl e, s3) \<Rightarrow> (Inl e, s3)
                     | (Inr u', s3) \<Rightarrow> (Inr (), emit PrintUpdatesCompleted s3)))))"

subsection \<open>update_single_model\<close>

text \<open>\<^verbatim>\<open>next((model for model in remote_model_list if model['name'] == model_id), None)\<close>:
  the records are subscripted in order until one compares equal to the string
  \<open>model_id\<close>. A record that is found has the key \<^verbatim>\<open>name\<close>, so it is a non-empty dict and
  \<^verbatim>\<open>if model_info\<close> holds for it; the else branch is the one where \<^verbatim>\<open>next\<close> gave None.\<close>

fun find_model :: "json list \<Rightarrow> string \<Rightarrow> error + json option" where
  "find_model [] model_id = Inr None"
| "find_model (model # rest) model_id =
     (case getitem model ''name'' of
        Inl e \<Rightarrow> Inl e
      | Inr n \<Rightarrow> if n = JStr model_id then Inr (Some model) else find_model rest model_id)"

definition update_single_model :: "'fs world \<Rightarrow> 'fs state \<Rightarrow> string \<Rightarrow> (error + unit) \<times> 'fs state" where
  "update_single_model w s model_id =
     (case fetch_remote_model_list w s of
        (None, s0) \<Rightarrow> (Inr (), emit PrintCouldNotFetch s0)
      | (Some [], s0) \<Rightarrow> (Inr (), emit PrintCouldNotFetch s0)
      | (Some (m # ms), s0) \<Rightarrow>
          (case find_model (m # ms) model_id of
             Inl e \<Rightarrow> (Inl e, s0)
           | Inr None \<Rightarrow> (Inr (), emit (PrintNotFound model_id) s0)
           | Inr (Some model_info) \<Rightarrow>
               (case download_single_model w s0 model_info of
                  (Inl e, s1) \<Rightarrow> (Inl e, s1)
                | (Inr u, s1) \<Rightarrow>
                    (case update_config_single_model s1 model_info of
                       (Inl e, s2) \<Rightarrow> (Inl e, s2)
                     | (Inr u', s2) \<Rightarrow>
                         (case getitem model_info ''name'' of
                            Inl e \<Rightarrow> (Inl e, s2)
                          | Inr n \<Rightarrow> (Inr (), emit (PrintCompletedFor n) s2))))))"

section \<open>Reading a pass\<close>

text \<open>The store is the part of the state the claims call local and configuration state:
  the files and the two configuration partitions.\<close>

definition store_unchanged :: "'fs state \<Rightarrow> 'fs state \<Rightarrow> bool" where
  "store_unchanged s s' =
     (fs s' = fs s \<and> vae_configs s' = vae_configs s \<and> model_configs s' = model_configs s)"

text \<open>The transfers a trace holds: its calls of \<^verbatim>\<open>download_file\<close>.\<close>

fun is_call :: "event \<Rightarrow> bool" where
  "is_call (CallDownloadFile u f z) = True"
| "is_call (LogWarningUnexpectedFormat url) = False"
| "is_call (LogErrorFailedToFetch url) = False"
| "is_call (PrintMissing ks) = False"
| "is_call (PrintDownloading n) = False"
| "is_call PrintCouldNotFetch = False"
| "is_call PrintUpdatesCompleted = False"
| "is_call PrintNoUpdatesRequired = False"
| "is_call (PrintCompletedFor n) = False"
| "is_call (PrintNotFound n) = False"

definition download_calls :: "event list \<Rightarrow> event list" where
  "download_calls tr = filter is_call tr"

fun is_list :: "json \<Rightarrow> bool" where
  "is_list (JArr xs) = True"
| "is_list JNull = False"
| "is_list (JBool b) = False"
| "is_list (JInt i) = False"
| "is_list (JStr t) = False"
| "is_list (JObj kvs) = False"

fun items :: "json \<Rightarrow> json list" where
  "items (JArr xs) = xs"
| "items JNull = []"
| "items (JBool b) = []"
| "items (JInt i) = []"
| "items (JStr t) = []"
| "items (JObj kvs) = []"

definition warning_for :: "string \<Rightarrow> json \<Rightarrow> event list" where
  "warning_for url p = (if is_list p then [] else [LogWarningUnexpectedFormat url])"

section \<open>A directory of plain files\<close>

fun str_of_nat :: "nat \<Rightarrow> string" where
  "str_of_nat n =
     (if n < 10 then [char_of (48 + n)]
      else str_of_nat (n div 10) @ [char_of (48 + n mod 10)])"

text \<open>Python's \<^verbatim>\<open>str\<close> on None, a bool and an int; the repr of a list or a dict is
  abbreviated.\<close>

fun scalar_str :: "json \<Rightarrow> string" where
  "scalar_str JNull = ''None''"
| "scalar_str (JBool b) = (if b then ''True'' else ''False'')"
| "scalar_str (JInt i) = (if i < 0 then ''-'' @ str_of_nat (nat (- i)) else str_of_nat (nat i))"
| "scalar_str (JStr t) = t"
| "scalar_str (JArr xs) = ''[...]''"
| "scalar_str (JObj kvs) = ''{...}''"

text \<open>
  Modelled from the spec: \<^verbatim>\<open>download_file\<close> of \<^verbatim>\<open>utils/file_utils.py\<close> is not among the
  sources. The spec's fetcher retrieves the artifact into the target directory and
  answers success or failure. Here the file system is the list of the directory's
  entries; a transfer adds the file, and a transfer from one of the urls in \<open>broken\<close>
  raises and leaves the directory as it was.
\<close>

definition plain_dir :: "response \<Rightarrow> response \<Rightarrow> json list \<Rightarrow> string list world" where
  "plain_dir model_resp vae_resp broken =
     \<lparr>model_config_url = ''model_config_url'',
      vae_config_url = ''vae_config_url'',
      model_config_response = model_resp,
      vae_config_response = vae_resp,
      listdir = Inr,
      path_exists = (\<lambda>files file_name. file_name \<in> set files),
      download_file = (\<lambda>files url file_name size.
         if url \<in> set broken then (Some DownloadError, files) else (None, files @ [file_name])),
      py_str = scalar_str\<rparr>"

definition fresh :: "string list \<Rightarrow> string list state" where
  "fresh files = \<lparr>fs = files, vae_configs = Map.empty, model_configs = Map.empty, trace = []\<rparr>"

definition descriptor :: "string \<Rightarrow> string \<Rightarrow> int \<Rightarrow> json" where
  "descriptor n url mb = JObj [(''name'', JStr n), (''file_url'', JStr url), (''size_mb'', JInt mb)]"

definition vae_descriptor :: "string \<Rightarrow> string \<Rightarrow> int \<Rightarrow> json" where
  "vae_descriptor n url mb =
     JObj [(''name'', JStr n), (''file_url'', JStr url), (''size_mb'', JInt mb), (''vae'', JBool True)]"

section \<open>What the properties speak of\<close>

text \<open>Every entry of either partition of \<open>s\<close> is the same entry in \<open>s'\<close>.\<close>

definition entries_kept :: "'fs state \<Rightarrow> 'fs state \<Rightarrow> bool" where
  "entries_kept s s' =
     (\<forall>k v. (vae_configs s k = Some v \<longrightarrow> vae_configs s' k = Some v) \<and>
            (model_configs s k = Some v \<longrightarrow> model_configs s' k = Some v))"

text \<open>The contract asked of \<^verbatim>\<open>download_file\<close> where a claim needs one: it removes no file.\<close>

definition keeps_files :: "'fs world \<Rightarrow> bool" where
  "keeps_files w =
     (\<forall>files url file_name size p.
        path_exists w files p \<longrightarrow> path_exists w (snd (download_file w files url file_name size)) p)"

text \<open>The transfers a trace holds for one destination file.\<close>

fun is_call_for :: "string \<Rightarrow> event \<Rightarrow> bool" where
  "is_call_for p (CallDownloadFile u f z) = (f = p)"
| "is_call_for p (LogWarningUnexpectedFormat url) = False"
| "is_call_for p (LogErrorFailedToFetch url) = False"
| "is_call_for p (PrintMissing ks) = False"
| "is_call_for p (PrintDownloading n) = False"
| "is_call_for p PrintCouldNotFetch = False"
| "is_call_for p PrintUpdatesCompleted = False"
| "is_call_for p PrintNoUpdatesRequired = False"
| "is_call_for p (PrintCompletedFor n) = False"
| "is_call_for p (PrintNotFound n) = False"

definition calls_for :: "string \<Rightarrow> event list \<Rightarrow> event list" where
  "calls_for p tr = filter (is_call_for p) tr"

text \<open>A descriptor is configured when its name is a key of the partition its kind selects.\<close>

definition configured :: "'fs state \<Rightarrow> json \<Rightarrow> bool" where
  "configured s d =
     (case getitem d ''name'' of
        Inl e \<Rightarrow> False
      | Inr n \<Rightarrow>
          (case key_of n of
             Inl e \<Rightarrow> False
           | Inr k \<Rightarrow>
               if has_key d ''vae'' then vae_configs s k \<noteq> None else model_configs s k \<noteq> None))"



text \<open>The events a pass from \<open>s\<close> to \<open>s'\<close> added, and what it means that every transfer
  of that pass succeeded: each file \<^verbatim>\<open>download_file\<close> was called for exists afterwards.\<close>

definition new_events :: "'fs state \<Rightarrow> 'fs state \<Rightarrow> event list" where
  "new_events s s' = drop (length (trace s)) (trace s')"

definition downloads_succeeded :: "'fs world \<Rightarrow> 'fs state \<Rightarrow> 'fs state \<Rightarrow> bool" where
  "downloads_succeeded w s s' =
     (\<forall>u f z. CallDownloadFile u f z \<in> set (new_events s s') \<longrightarrow> path_exists w (fs s') f)"

text \<open>A descriptor \<^verbatim>\<open>download_single_model\<close> has nothing to do for: its fields are there and
  its destination file exists.\<close>

definition present_locally :: "'fs world \<Rightarrow> 'fs state \<Rightarrow> json \<Rightarrow> bool" where
  "present_locally w s d =
     (case getitem d ''name'' of
        Inl e \<Rightarrow> False
      | Inr n \<Rightarrow>
          \<not> isl (getitem d ''file_url'') \<and> \<not> isl (getitem d ''size_mb'') \<and>
          path_exists w (fs s) (file_name_of w n))"

text \<open>A pass from \<open>t\<close> that transfers nothing and leaves the store as it is.\<close>

definition quiet :: "'fs world \<Rightarrow> 'fs state \<Rightarrow> bool" where
  "quiet w t =
     (store_unchanged t (snd (update_models w t)) \<and>
      download_calls (trace (snd (update_models w t))) = download_calls (trace t))"

section \<open>The catalog fetch\<close>

lemma fetch_loop_store:
  "fetch_loop urls c s = (r, s') \<Longrightarrow>
     store_unchanged s s' \<and> download_calls (trace s') = download_calls (trace s)"
  by (induction urls c s rule: fetch_loop.induct)
     (auto simp: store_unchanged_def emit_def download_calls_def)

lemma fetch_store:
  "fetch_remote_model_list w s = (r, s') \<Longrightarrow>
     store_unchanged s s' \<and> download_calls (trace s') = download_calls (trace s)"
  unfolding fetch_remote_model_list_def by (rule fetch_loop_store)

lemma fetch_loop_payload:
  "fetch_loop ((url, Payload p) # urls) c s =
     fetch_loop urls (c @ items p) (s\<lparr>trace := trace s @ warning_for url p\<rparr>)"
  by (cases p) (simp_all add: warning_for_def emit_def)

lemma fetch_payloads:
  assumes "model_config_response w = Payload p" and "vae_config_response w = Payload q"
  shows "fetch_remote_model_list w s =
     (Some (items p @ items q),
      s\<lparr>trace := trace s @ warning_for (model_config_url w) p @ warning_for (vae_config_url w) q\<rparr>)"
  using assms by (simp add: fetch_remote_model_list_def fetch_loop_payload)

lemma fetch_failed:
  assumes "model_config_response w = RequestException \<or> vae_config_response w = RequestException"
  shows "\<exists>url ws. fetch_remote_model_list w s =
           (None, s\<lparr>trace := trace s @ ws @ [LogErrorFailedToFetch url]\<rparr>)"
proof (cases "model_config_response w")
  case RequestException
  then have "fetch_remote_model_list w s =
      (None, s\<lparr>trace := trace s @ [] @ [LogErrorFailedToFetch (model_config_url w)]\<rparr>)"
    by (simp add: fetch_remote_model_list_def emit_def)
  then show ?thesis by blast
next
  case (Payload p)
  with assms have v: "vae_config_response w = RequestException" by simp
  have "fetch_remote_model_list w s =
      (None, s\<lparr>trace := trace s @ warning_for (model_config_url w) p
                 @ [LogErrorFailedToFetch (vae_config_url w)]\<rparr>)"
    using Payload v by (simp add: fetch_remote_model_list_def fetch_loop_payload emit_def)
  then show ?thesis by blast
qed

text \<open>
  C1. When the request to either catalog url raises, \<^verbatim>\<open>fetch_remote_model_list\<close> returns
  None and \<^verbatim>\<open>update_models\<close> stops there: it returns normally after logging the failed
  fetch and printing that the remote list could not be fetched, it has called
  \<^verbatim>\<open>download_file\<close> for nothing, and the files and both configuration partitions are
  what they were before the call.
\<close>

theorem update_models_fetch_failed:
  assumes "model_config_response w = RequestException \<or> vae_config_response w = RequestException"
  shows "\<exists>s0. fetch_remote_model_list w s = (None, s0) \<and>
           update_models w s = (Inr (), emit PrintCouldNotFetch s0) \<and>
           store_unchanged s (emit PrintCouldNotFetch s0) \<and>
           download_calls (trace (emit PrintCouldNotFetch s0)) = download_calls (trace s) \<and>
           (\<exists>url. LogErrorFailedToFetch url \<in> set (trace s0))"
proof -
  from fetch_failed [OF assms, of s] obtain url ws where
    f: "fetch_remote_model_list w s =
          (None, s\<lparr>trace := trace s @ ws @ [LogErrorFailedToFetch url]\<rparr>)"
    by blast
  let ?s0 = "s\<lparr>trace := trace s @ ws @ [LogErrorFailedToFetch url]\<rparr>"
  have "update_models w s = (Inr (), emit PrintCouldNotFetch ?s0)"
    using f by (simp add: update_models_def)
  moreover have "store_unchanged s (emit PrintCouldNotFetch ?s0)"
    by (simp add: store_unchanged_def emit_def)
  moreover have "download_calls (trace (emit PrintCouldNotFetch ?s0)) = download_calls (trace s)"
    using fetch_store [OF f] by (simp add: emit_def download_calls_def)
  ultimately show ?thesis using f by auto
qed

theorem update_models_fetch_failed_witness:
  "vae_config_response (plain_dir (Payload (JArr [descriptor ''m1'' ''http://x/m1'' 10])) RequestException [])
     = RequestException \<and>
   update_models (plain_dir (Payload (JArr [descriptor ''m1'' ''http://x/m1'' 10])) RequestException [])
       (fresh [])
     = (Inr (), (fresh [])\<lparr>trace := [LogErrorFailedToFetch ''vae_config_url'', PrintCouldNotFetch]\<rparr>)"
proof -
  let ?w = "plain_dir (Payload (JArr [descriptor ''m1'' ''http://x/m1'' 10])) RequestException []"
  have h: "model_config_response ?w = RequestException \<or> vae_config_response ?w = RequestException"
    by (simp add: plain_dir_def)
  from update_models_fetch_failed [OF h, of "fresh []"] obtain s0 where
    f: "fetch_remote_model_list ?w (fresh []) = (None, s0)" and
    u: "update_models ?w (fresh []) = (Inr (), emit PrintCouldNotFetch s0)"
    by blast
  have "fetch_remote_model_list ?w (fresh []) =
          (None, (fresh [])\<lparr>trace := [LogErrorFailedToFetch ''vae_config_url'']\<rparr>)"
    by (simp add: fetch_remote_model_list_def plain_dir_def fresh_def emit_def)
  with f have "s0 = (fresh [])\<lparr>trace := [LogErrorFailedToFetch ''vae_config_url'']\<rparr>" by simp
  with u show ?thesis by (simp add: emit_def plain_dir_def)
qed

text \<open>
  C9. When both catalog urls answer with an empty JSON array, the combined list is empty
  and is handled as a failed fetch: \<^verbatim>\<open>update_models\<close> and \<^verbatim>\<open>update_single_model\<close> print
  that the remote list could not be fetched and return, whatever the local directory
  holds (it is not listed), with no transfer, no merge and no not-found report.
\<close>

theorem empty_catalog_skipped:
  assumes "model_config_response w = Payload (JArr [])"
    and "vae_config_response w = Payload (JArr [])"
  shows "update_models w s = (Inr (), emit PrintCouldNotFetch s) \<and>
         update_single_model w s model_id = (Inr (), emit PrintCouldNotFetch s)"
  using assms
  by (simp add: update_models_def update_single_model_def fetch_remote_model_list_def)

theorem empty_catalog_skipped_witness:
  "update_models (plain_dir (Payload (JArr [])) (Payload (JArr [])) []) (fresh [''old.safetensors''])
     = (Inr (), (fresh [''old.safetensors''])\<lparr>trace := [PrintCouldNotFetch]\<rparr>) \<and>
   update_single_model (plain_dir (Payload (JArr [])) (Payload (JArr [])) []) (fresh [''old.safetensors'']) ''ghost''
     = (Inr (), (fresh [''old.safetensors''])\<lparr>trace := [PrintCouldNotFetch]\<rparr>)"
  using empty_catalog_skipped [of "plain_dir (Payload (JArr [])) (Payload (JArr [])) []"
      "fresh [''old.safetensors'']" "''ghost''"]
  by (simp add: plain_dir_def emit_def fresh_def)

section \<open>A pass over a catalog that is present locally\<close>

lemma rsplit_safetensors: "rsplit_dot_head (n @ ''.safetensors'') = n"
  by (simp add: rsplit_dot_head_def)

lemma endswith_safetensors: "endswith (n @ ''.safetensors'') ''.safetensors''"
  by (simp add: endswith_def)

lemma local_name_present:
  "n @ ''.safetensors'' \<in> set files \<Longrightarrow> KStr n \<in> local_model_names files"
proof -
  assume a: "n @ ''.safetensors'' \<in> set files"
  have "KStr (rsplit_dot_head (n @ ''.safetensors'')) \<in> local_model_names files"
    unfolding local_model_names_def using a endswith_safetensors [of n] by auto
  then show ?thesis by (simp add: rsplit_safetensors)
qed

text \<open>
  The claim C4 as stated does not hold: here the model url answers with a JSON object and
  the VAE url with a one-entry array. The fetch still returns the VAE entry, and the pass
  downloads it and merges it, so files and configuration change.
\<close>

theorem nonlist_source_counterexample:
  "fetch_remote_model_list
       (plain_dir (Payload (JObj [(''error'', JStr ''down'')]))
                  (Payload (JArr [vae_descriptor ''v1'' ''http://x/v1'' 5])) [])
       (fresh [])
     = (Some [vae_descriptor ''v1'' ''http://x/v1'' 5],
        (fresh [])\<lparr>trace := [LogWarningUnexpectedFormat ''model_config_url'']\<rparr>) \<and>
   update_models
       (plain_dir (Payload (JObj [(''error'', JStr ''down'')]))
                  (Payload (JArr [vae_descriptor ''v1'' ''http://x/v1'' 5])) [])
       (fresh [])
     = (Inr (),
        \<lparr>fs = [''v1.safetensors''],
         vae_configs = [KStr ''v1'' \<mapsto> vae_descriptor ''v1'' ''http://x/v1'' 5],
         model_configs = Map.empty,
         trace = [LogWarningUnexpectedFormat ''model_config_url'',
                  PrintMissing {KStr ''v1''},
                  PrintDownloading (JStr ''v1''),
                  CallDownloadFile (JStr ''http://x/v1'') ''v1.safetensors'' (JInt 5242880),
                  PrintUpdatesCompleted]\<rparr>) \<and>
   \<not> store_unchanged (fresh [])
       (snd (update_models
         (plain_dir (Payload (JObj [(''error'', JStr ''down'')]))
                    (Payload (JArr [vae_descriptor ''v1'' ''http://x/v1'' 5])) [])
         (fresh [])))"
  by (simp add: update_models_def fetch_remote_model_list_def plain_dir_def fresh_def emit_def
      is_update_required_def local_model_names_def vae_descriptor_def
      download_single_model_def file_name_of_def update_config_single_model_def
      store_unchanged_def Let_def endswith_def rsplit_dot_head_def)

text \<open>
  C4 (amended). A body that is not a JSON array is not a fetch failure: it is logged as an
  unexpected format and contributes no entries, and \<^verbatim>\<open>fetch_remote_model_list\<close> returns
  the entries of the bodies that are arrays, in url order. Only a RequestException makes
  the combined fetch fail.
\<close>

theorem nonlist_source_skipped:
  assumes "model_config_response w = Payload p" and "vae_config_response w = Payload q"
  shows "fetch_remote_model_list w s =
     (Some (items p @ items q),
      s\<lparr>trace := trace s @ warning_for (model_config_url w) p @ warning_for (vae_config_url w) q\<rparr>)"
  using assms by (rule fetch_payloads)

theorem nonlist_source_skipped_witness:
  "fetch_remote_model_list
       (plain_dir (Payload (JObj [(''error'', JStr ''down'')]))
                  (Payload (JArr [vae_descriptor ''v1'' ''http://x/v1'' 5])) [])
       (fresh [])
     = (Some [vae_descriptor ''v1'' ''http://x/v1'' 5],
        (fresh [])\<lparr>trace := [LogWarningUnexpectedFormat ''model_config_url'']\<rparr>)"
  using nonlist_source_skipped [of
      "plain_dir (Payload (JObj [(''error'', JStr ''down'')]))
                  (Payload (JArr [vae_descriptor ''v1'' ''http://x/v1'' 5])) []"
      "JObj [(''error'', JStr ''down'')]" "JArr [vae_descriptor ''v1'' ''http://x/v1'' 5]" "fresh []"]
  by (simp add: plain_dir_def warning_for_def fresh_def)

lemma single_present_no_update:
  assumes "fetch_remote_model_list w s = (Some [d], s0)"
    and "getitem d ''name'' = Inr (JStr n)"
    and "listdir w (fs s) = Inr files"
    and "n @ ''.safetensors'' \<in> set files"
  shows "update_models w s = (Inr (), emit PrintNoUpdatesRequired s0)"
proof -
  from fetch_store [OF assms(1)] have "fs s0 = fs s" by (simp add: store_unchanged_def)
  with assms(3) have l: "listdir w (fs s0) = Inr files" by simp
  have "is_update_required w s0 [d] = (Inr False, s0)"
    using l assms(2) local_name_present [OF assms(4)]
    by (simp add: is_update_required_def)
  then show ?thesis
    using assms(1) by (simp add: update_models_def)
qed

text \<open>
  The claim C3 as stated does not hold: with the single VAE descriptor v1 and the file
  v1.safetensors in the directory, the pass ends with v1 still absent from the VAE
  partition.
\<close>

theorem local_vae_not_merged_counterexample:
  "update_models
       (plain_dir (Payload (JArr [])) (Payload (JArr [vae_descriptor ''v1'' ''http://x/v1'' 5])) [])
       (fresh [''v1.safetensors''])
     = (Inr (), (fresh [''v1.safetensors''])\<lparr>trace := [PrintNoUpdatesRequired]\<rparr>) \<and>
   vae_configs (snd (update_models
       (plain_dir (Payload (JArr [])) (Payload (JArr [vae_descriptor ''v1'' ''http://x/v1'' 5])) [])
       (fresh [''v1.safetensors'']))) (KStr ''v1'') = None"
proof -
  let ?w = "plain_dir (Payload (JArr [])) (Payload (JArr [vae_descriptor ''v1'' ''http://x/v1'' 5])) []"
  let ?s = "fresh [''v1.safetensors'']"
  have f: "fetch_remote_model_list ?w ?s = (Some [vae_descriptor ''v1'' ''http://x/v1'' 5], ?s)"
    by (simp add: fetch_remote_model_list_def plain_dir_def)
  have n: "getitem (vae_descriptor ''v1'' ''http://x/v1'' 5) ''name'' = Inr (JStr ''v1'')"
    by (simp add: vae_descriptor_def)
  have l: "listdir ?w (fs ?s) = Inr [''v1.safetensors'']"
    by (simp add: plain_dir_def fresh_def)
  have "update_models ?w ?s = (Inr (), emit PrintNoUpdatesRequired ?s)"
    by (rule single_present_no_update [OF f n l]) simp
  then show ?thesis by (simp add: emit_def fresh_def)
qed

text \<open>
  C3 (amended). For a catalog of exactly one descriptor whose name is a string \<open>n\<close>, with
  \<open>n.safetensors\<close> among the entries of the local directory, \<^verbatim>\<open>is_update_required\<close> finds
  nothing missing: \<^verbatim>\<open>update_models\<close> prints that no updates are required and returns
  with no call of \<^verbatim>\<open>download_file\<close> and no merge, the files and both configuration
  partitions being what they were.
\<close>

theorem present_descriptor_no_update:
  assumes "fetch_remote_model_list w s = (Some [d], s0)"
    and "getitem d ''name'' = Inr (JStr n)"
    and "listdir w (fs s) = Inr files"
    and "n @ ''.safetensors'' \<in> set files"
  shows "update_models w s = (Inr (), emit PrintNoUpdatesRequired s0) \<and>
         store_unchanged s (emit PrintNoUpdatesRequired s0) \<and>
         download_calls (trace (emit PrintNoUpdatesRequired s0)) = download_calls (trace s)"
proof -
  from fetch_store [OF assms(1)] have st: "store_unchanged s s0"
    and dc: "download_calls (trace s0) = download_calls (trace s)" by simp_all
  have "update_models w s = (Inr (), emit PrintNoUpdatesRequired s0)"
    using assms by (rule single_present_no_update)
  moreover have "store_unchanged s (emit PrintNoUpdatesRequired s0)"
    using st by (simp add: store_unchanged_def emit_def)
  moreover have "download_calls (trace (emit PrintNoUpdatesRequired s0)) = download_calls (trace s)"
    using dc by (simp add: emit_def download_calls_def)
  ultimately show ?thesis by simp
qed

theorem present_descriptor_no_update_witness:
  "update_models
       (plain_dir (Payload (JArr [])) (Payload (JArr [vae_descriptor ''v1'' ''http://x/v1'' 5])) [])
       (fresh [''v1.safetensors'', ''notes.txt''])
     = (Inr (), (fresh [''v1.safetensors'', ''notes.txt''])\<lparr>trace := [PrintNoUpdatesRequired]\<rparr>)"
proof -
  let ?w = "plain_dir (Payload (JArr [])) (Payload (JArr [vae_descriptor ''v1'' ''http://x/v1'' 5])) []"
  let ?s = "fresh [''v1.safetensors'', ''notes.txt'']"
  have f: "fetch_remote_model_list ?w ?s = (Some [vae_descriptor ''v1'' ''http://x/v1'' 5], ?s)"
    by (simp add: fetch_remote_model_list_def plain_dir_def)
  have n: "getitem (vae_descriptor ''v1'' ''http://x/v1'' 5) ''name'' = Inr (JStr ''v1'')"
    by (simp add: vae_descriptor_def)
  have l: "listdir ?w (fs ?s) = Inr [''v1.safetensors'', ''notes.txt'']"
    by (simp add: plain_dir_def fresh_def)
  have m: "''v1'' @ ''.safetensors'' \<in> set [''v1.safetensors'', ''notes.txt'']" by simp
  from present_descriptor_no_update [OF f n l m]
  show ?thesis by (simp add: emit_def fresh_def)
qed

section \<open>What the configuration store keeps\<close>

lemma entries_kept_refl: "entries_kept s s"
  by (simp add: entries_kept_def)

lemma entries_kept_trans: "entries_kept s s' \<Longrightarrow> entries_kept s' s'' \<Longrightarrow> entries_kept s s''"
  by (simp add: entries_kept_def)

lemma entries_kept_same:
  "vae_configs s' = vae_configs s \<Longrightarrow> model_configs s' = model_configs s \<Longrightarrow> entries_kept s s'"
  by (simp add: entries_kept_def)

lemma entries_kept_emit: "entries_kept s s' \<Longrightarrow> entries_kept s (emit e s')"
  by (simp add: entries_kept_def emit_def)

lemma store_unchanged_kept: "store_unchanged s s' \<Longrightarrow> entries_kept s s'"
  by (simp add: entries_kept_def store_unchanged_def)

lemma ucsm_kept: "entries_kept s (snd (update_config_single_model s d))"
  by (auto simp: update_config_single_model_def entries_kept_def split: sum.splits)

lemma ucsm_frame:
  "update_config_single_model s d = (r, s') \<Longrightarrow> fs s' = fs s \<and> trace s' = trace s"
  by (auto simp: update_config_single_model_def split: sum.splits if_splits)

lemma uc_kept: "entries_kept s (snd (update_configs s ds))"
proof (induction ds arbitrary: s)
  case Nil
  show ?case by (simp add: entries_kept_refl)
next
  case (Cons d ds)
  obtain r s' where u: "update_config_single_model s d = (r, s')" by (cases "update_config_single_model s d")
  with ucsm_kept [of s d] have k: "entries_kept s s'" by simp
  show ?case
  proof (cases r)
    case (Inl e)
    with u k show ?thesis by simp
  next
    case (Inr x)
    with u have "snd (update_configs s (d # ds)) = snd (update_configs s' ds)" by simp
    with entries_kept_trans [OF k Cons.IH [of s']] show ?thesis by simp
  qed
qed

lemma uc_frame:
  "update_configs s ds = (r, s') \<Longrightarrow> fs s' = fs s \<and> trace s' = trace s"
proof (induction ds arbitrary: s)
  case Nil
  then show ?case by auto
next
  case (Cons d ds)
  obtain r1 s1 where u: "update_config_single_model s d = (r1, s1)" by (cases "update_config_single_model s d")
  from ucsm_frame [OF u] have f: "fs s1 = fs s \<and> trace s1 = trace s" .
  show ?case
  proof (cases r1)
    case (Inl e)
    with u Cons.prems f show ?thesis by auto
  next
    case (Inr x)
    with u Cons.prems have "update_configs s1 ds = (r, s')" by simp
    from Cons.IH [OF this] f show ?thesis by simp
  qed
qed

lemma dsm_configs:
  "download_single_model w s d = (r, s') \<Longrightarrow>
     vae_configs s' = vae_configs s \<and> model_configs s' = model_configs s"
  by (auto simp: download_single_model_def Let_def emit_def
           split: sum.splits if_splits prod.splits option.splits)

lemma dnm_configs:
  "download_new_models w s ds = (r, s') \<Longrightarrow>
     vae_configs s' = vae_configs s \<and> model_configs s' = model_configs s"
proof (induction ds arbitrary: s)
  case Nil
  then show ?case by auto
next
  case (Cons d ds)
  obtain r1 s1 where u: "download_single_model w s d = (r1, s1)" by (cases "download_single_model w s d")
  from dsm_configs [OF u] have f: "vae_configs s1 = vae_configs s \<and> model_configs s1 = model_configs s" .
  show ?case
  proof (cases r1)
    case (Inl e)
    with u Cons.prems f show ?thesis by auto
  next
    case (Inr x)
    with u Cons.prems have "download_new_models w s1 ds = (r, s')" by simp
    from Cons.IH [OF this] f show ?thesis by simp
  qed
qed

lemma iur_store:
  "is_update_required w s ms = (r, s') \<Longrightarrow>
     store_unchanged s s' \<and> download_calls (trace s') = download_calls (trace s)"
  by (auto simp: is_update_required_def Let_def emit_def store_unchanged_def download_calls_def
           split: sum.splits if_splits)

lemma update_models_kept: "entries_kept s (snd (update_models w s))"
proof -
  obtain r0 s0 where f: "fetch_remote_model_list w s = (r0, s0)" by (cases "fetch_remote_model_list w s")
  from fetch_store [OF f] have k0: "entries_kept s s0" by (simp add: store_unchanged_kept)
  show ?thesis
  proof (cases r0)
    case None
    with f k0 show ?thesis by (simp add: update_models_def entries_kept_emit)
  next
    case (Some ms)
    show ?thesis
    proof (cases ms)
      case Nil
      with f k0 Some show ?thesis by (simp add: update_models_def entries_kept_emit)
    next
      case (Cons m ms')
      obtain r1 s1 where i: "is_update_required w s0 (m # ms') = (r1, s1)"
        by (cases "is_update_required w s0 (m # ms')")
      from iur_store [OF i] have k1: "entries_kept s s1"
        using k0 by (auto intro: entries_kept_trans store_unchanged_kept)
      obtain r2 s2 where d: "download_new_models w s1 (m # ms') = (r2, s2)"
        by (cases "download_new_models w s1 (m # ms')")
      from dnm_configs [OF d] have k2: "entries_kept s s2"
        using k1 by (auto intro: entries_kept_trans entries_kept_same)
      have k3: "entries_kept s (snd (update_configs s2 (m # ms')))"
        using k2 uc_kept [of s2 "m # ms'"] by (rule entries_kept_trans)
      obtain r3 s3 where c: "update_configs s2 (m # ms') = (r3, s3)"
        by (cases "update_configs s2 (m # ms')")
      with k3 have k3': "entries_kept s s3" by simp
      have "snd (update_models w s) \<in> {s1, emit PrintNoUpdatesRequired s1, s2, s3, emit PrintUpdatesCompleted s3}"
        using f Some Cons i d c unfolding update_models_def
        by (cases r1; cases r2; cases r3) (auto split: bool.splits)
      with k1 k2 k3' show ?thesis by (auto intro: entries_kept_emit)
    qed
  qed
qed

lemma update_single_model_kept: "entries_kept s (snd (update_single_model w s model_id))"
proof -
  obtain r0 s0 where f: "fetch_remote_model_list w s = (r0, s0)" by (cases "fetch_remote_model_list w s")
  from fetch_store [OF f] have k0: "entries_kept s s0" by (simp add: store_unchanged_kept)
  show ?thesis
  proof (cases r0)
    case None
    with f k0 show ?thesis by (simp add: update_single_model_def entries_kept_emit)
  next
    case (Some ms)
    show ?thesis
    proof (cases ms)
      case Nil
      with f k0 Some show ?thesis by (simp add: update_single_model_def entries_kept_emit)
    next
      case (Cons m ms')
      show ?thesis
      proof (cases "find_model (m # ms') model_id")
        case (Inl e)
        with f Some Cons k0 show ?thesis by (simp add: update_single_model_def)
      next
        case (Inr found)
        show ?thesis
        proof (cases found)
          case None
          with f Some Cons Inr k0 show ?thesis
            by (simp add: update_single_model_def entries_kept_emit)
        next
          case (Some model_info)
          obtain r1 s1 where d: "download_single_model w s0 model_info = (r1, s1)"
            by (cases "download_single_model w s0 model_info")
          from dsm_configs [OF d] have k1: "entries_kept s s1"
            using k0 by (auto intro: entries_kept_trans entries_kept_same)
          obtain r2 s2 where c: "update_config_single_model s1 model_info = (r2, s2)"
            by (cases "update_config_single_model s1 model_info")
          with ucsm_kept [of s1 model_info] k1 have k2: "entries_kept s s2"
            by (auto intro: entries_kept_trans)
          have "snd (update_single_model w s model_id) \<in>
                  {s1, s2} \<union> {emit (PrintCompletedFor n) s2 | n. True}"
            using f \<open>r0 = Some ms\<close> Cons Inr Some d c unfolding update_single_model_def
            by (cases r1; cases r2) (auto split: sum.splits)
          with k1 k2 show ?thesis by (auto intro: entries_kept_emit)
        qed
      qed
    qed
  qed
qed

text \<open>
  C5. No operation of the updater replaces or changes an entry that the configuration
  store already holds: whatever is stored under a key in the VAE partition or in the
  model partition before \<^verbatim>\<open>update_config_single_model\<close>, \<^verbatim>\<open>update_configs\<close>,
  \<^verbatim>\<open>download_single_model\<close>, \<^verbatim>\<open>download_new_models\<close>, \<^verbatim>\<open>update_models\<close> or
  \<^verbatim>\<open>update_single_model\<close> is stored under it afterwards, whatever the remote descriptors
  say and whether the operation returns or raises.
\<close>

theorem config_entries_never_replaced:
  "entries_kept s (snd (update_config_single_model s d)) \<and>
   entries_kept s (snd (update_configs s ds)) \<and>
   entries_kept s (snd (download_single_model w s d)) \<and>
   entries_kept s (snd (download_new_models w s ds)) \<and>
   entries_kept s (snd (update_models w s)) \<and>
   entries_kept s (snd (update_single_model w s model_id))"
proof -
  have "entries_kept s (snd (download_single_model w s d))"
    using dsm_configs [of w s d] by (cases "download_single_model w s d") (simp add: entries_kept_same)
  moreover have "entries_kept s (snd (download_new_models w s ds))"
    using dnm_configs [of w s ds] by (cases "download_new_models w s ds") (simp add: entries_kept_same)
  ultimately show ?thesis
    by (simp add: ucsm_kept uc_kept update_models_kept update_single_model_kept)
qed

theorem config_entries_never_replaced_witness:
  "vae_configs
     (snd (update_models
        (plain_dir (Payload (JArr [descriptor ''m1'' ''http://x/m1'' 10]))
                   (Payload (JArr [vae_descriptor ''v1'' ''http://new/v1'' 7])) [])
        ((fresh [])\<lparr>vae_configs := [KStr ''v1'' \<mapsto> vae_descriptor ''v1'' ''http://old/v1'' 5]\<rparr>)))
     (KStr ''v1'')
   = Some (vae_descriptor ''v1'' ''http://old/v1'' 5) \<and>
   vae_configs
     (snd (update_single_model
        (plain_dir (Payload (JArr [descriptor ''m1'' ''http://x/m1'' 10]))
                   (Payload (JArr [vae_descriptor ''v1'' ''http://new/v1'' 7])) [])
        ((fresh [])\<lparr>vae_configs := [KStr ''v1'' \<mapsto> vae_descriptor ''v1'' ''http://old/v1'' 5]\<rparr>)
        ''v1''))
     (KStr ''v1'')
   = Some (vae_descriptor ''v1'' ''http://old/v1'' 5)"
proof -
  let ?w = "plain_dir (Payload (JArr [descriptor ''m1'' ''http://x/m1'' 10]))
                   (Payload (JArr [vae_descriptor ''v1'' ''http://new/v1'' 7])) []"
  let ?s = "(fresh [])\<lparr>vae_configs := [KStr ''v1'' \<mapsto> vae_descriptor ''v1'' ''http://old/v1'' 5]\<rparr>"
  have h: "vae_configs ?s (KStr ''v1'') = Some (vae_descriptor ''v1'' ''http://old/v1'' 5)"
    by simp
  from config_entries_never_replaced [of ?s _ _ ?w "''v1''"]
  have "entries_kept ?s (snd (update_models ?w ?s))"
    and "entries_kept ?s (snd (update_single_model ?w ?s ''v1''))" by blast+
  with h show ?thesis unfolding entries_kept_def by blast
qed

section \<open>Files that exist are left alone\<close>

lemma is_call_for_is_call: "is_call_for p e \<Longrightarrow> is_call e"
  by (cases e) simp_all

lemma calls_for_of_calls: "calls_for p tr = calls_for p (download_calls tr)"
proof -
  have "filter (is_call_for p) tr = filter (\<lambda>e. is_call e \<and> is_call_for p e) tr"
    by (rule filter_cong) (auto dest: is_call_for_is_call)
  then show ?thesis by (simp add: calls_for_def download_calls_def)
qed

lemma calls_for_same:
  "download_calls tr' = download_calls tr \<Longrightarrow> calls_for p tr' = calls_for p tr"
  using calls_for_of_calls [of p tr] calls_for_of_calls [of p tr'] by simp

lemma dsm_present:
  assumes "keeps_files w" and "path_exists w (fs s) p"
    and "download_single_model w s d = (r, s')"
  shows "path_exists w (fs s') p \<and> calls_for p (trace s') = calls_for p (trace s)"
proof (cases "\<exists>n u z. getitem d ''name'' = Inr n \<and> getitem d ''file_url'' = Inr u \<and>
                getitem d ''size_mb'' = Inr z \<and> \<not> path_exists w (fs s) (file_name_of w n)")
  case False
  then have "s' = s"
    using assms(3) by (auto simp: download_single_model_def Let_def split: sum.splits if_splits)
  with assms(2) show ?thesis by simp
next
  case True
  then obtain n u z where g: "getitem d ''name'' = Inr n" "getitem d ''file_url'' = Inr u"
      "getitem d ''size_mb'' = Inr z" and ne: "\<not> path_exists w (fs s) (file_name_of w n)"
    by blast
  from ne assms(2) have neq: "file_name_of w n \<noteq> p" by auto
  have kept: "\<And>t e files'. download_file w (fs s) u (file_name_of w n) t = (e, files') \<Longrightarrow>
      path_exists w files' p"
    using assms(1,2) unfolding keeps_files_def by (metis snd_conv)
  show ?thesis
    using assms(2,3) g ne neq kept
    by (auto simp: download_single_model_def Let_def emit_def calls_for_def
             split: sum.splits prod.splits option.splits)
qed

lemma dnm_present:
  assumes "keeps_files w"
  shows "path_exists w (fs s) p \<Longrightarrow> download_new_models w s ds = (r, s') \<Longrightarrow>
         path_exists w (fs s') p \<and> calls_for p (trace s') = calls_for p (trace s)"
proof (induction ds arbitrary: s)
  case Nil
  then show ?case by auto
next
  case (Cons d ds)
  obtain r1 s1 where u: "download_single_model w s d = (r1, s1)"
    by (cases "download_single_model w s d")
  from dsm_present [OF assms Cons.prems(1) u]
  have f: "path_exists w (fs s1) p" "calls_for p (trace s1) = calls_for p (trace s)" by simp_all
  show ?case
  proof (cases r1)
    case (Inl e)
    with u Cons.prems f show ?thesis by auto
  next
    case (Inr x)
    with u Cons.prems have "download_new_models w s1 ds = (r, s')" by simp
    from Cons.IH [OF f(1) this] f(2) show ?thesis by simp
  qed
qed

lemma update_models_cases [consumes 0, case_names Skipped ScanRaised NoUpdate DownloadRaised MergeRaised Completed]:
  obtains
    (Skipped) r0 s0 where "fetch_remote_model_list w s = (r0, s0)" "r0 = None \<or> r0 = Some []"
      "update_models w s = (Inr (), emit PrintCouldNotFetch s0)"
  | (ScanRaised) ms s0 e s1 where "fetch_remote_model_list w s = (Some ms, s0)" "ms \<noteq> []"
      "is_update_required w s0 ms = (Inl e, s1)" "update_models w s = (Inl e, s1)"
  | (NoUpdate) ms s0 s1 where "fetch_remote_model_list w s = (Some ms, s0)" "ms \<noteq> []"
      "is_update_required w s0 ms = (Inr False, s1)"
      "update_models w s = (Inr (), emit PrintNoUpdatesRequired s1)"
  | (DownloadRaised) ms s0 s1 e s2 where "fetch_remote_model_list w s = (Some ms, s0)" "ms \<noteq> []"
      "is_update_required w s0 ms = (Inr True, s1)"
      "download_new_models w s1 ms = (Inl e, s2)" "update_models w s = (Inl e, s2)"
  | (MergeRaised) ms s0 s1 s2 e s3 where "fetch_remote_model_list w s = (Some ms, s0)" "ms \<noteq> []"
      "is_update_required w s0 ms = (Inr True, s1)"
      "download_new_models w s1 ms = (Inr (), s2)"
      "update_configs s2 ms = (Inl e, s3)" "update_models w s = (Inl e, s3)"
  | (Completed) ms s0 s1 s2 s3 where "fetch_remote_model_list w s = (Some ms, s0)" "ms \<noteq> []"
      "is_update_required w s0 ms = (Inr True, s1)"
      "download_new_models w s1 ms = (Inr (), s2)"
      "update_configs s2 ms = (Inr (), s3)"
      "update_models w s = (Inr (), emit PrintUpdatesCompleted s3)"
proof -
  obtain r0 s0 where f: "fetch_remote_model_list w s = (r0, s0)"
    by (cases "fetch_remote_model_list w s")
  show thesis
  proof (cases "r0 = None \<or> r0 = Some []")
    case True
    then have "update_models w s = (Inr (), emit PrintCouldNotFetch s0)"
      using f by (auto simp: update_models_def)
    with f True show thesis by (rule Skipped)
  next
    case False
    then obtain m ms' where r0: "r0 = Some (m # ms')"
      by (cases r0) (auto simp: neq_Nil_conv)
    let ?ms = "m # ms'"
    have f': "fetch_remote_model_list w s = (Some ?ms, s0)" using f r0 by simp
    obtain r1 s1 where i: "is_update_required w s0 ?ms = (r1, s1)"
      by (cases "is_update_required w s0 ?ms")
    show thesis
    proof (cases r1)
      case (Inl e)
      with f' i have "update_models w s = (Inl e, s1)" by (simp add: update_models_def)
      with f' i Inl show thesis by (auto intro: ScanRaised)
    next
      case (Inr b)
      show thesis
      proof (cases b)
        case False
        with f' i Inr have "update_models w s = (Inr (), emit PrintNoUpdatesRequired s1)"
          by (simp add: update_models_def)
        with f' i Inr False show thesis by (auto intro: NoUpdate)
      next
        case True
        obtain r2 s2 where d: "download_new_models w s1 ?ms = (r2, s2)"
          by (cases "download_new_models w s1 ?ms")
        show thesis
        proof (cases r2)
          case (Inl e)
          with f' i Inr True d have "update_models w s = (Inl e, s2)"
            by (simp add: update_models_def)
          with f' i Inr True d Inl show thesis by (auto intro: DownloadRaised)
        next
          case r2: (Inr u)
          obtain r3 s3 where c: "update_configs s2 ?ms = (r3, s3)"
            by (cases "update_configs s2 ?ms")
          show thesis
          proof (cases r3)
            case (Inl e)
            with f' i Inr True d r2 c have "update_models w s = (Inl e, s3)"
              by (simp add: update_models_def)
            with f' i Inr True d r2 c Inl show thesis by (auto intro: MergeRaised)
          next
            case r3: (Inr u')
            with f' i Inr True d r2 c
            have "update_models w s = (Inr (), emit PrintUpdatesCompleted s3)"
              by (simp add: update_models_def)
            with f' i Inr True d r2 c r3 show thesis by (auto intro: Completed)
          qed
        qed
      qed
    qed
  qed
qed

lemma dsm_returned_fields:
  "download_single_model w s d = (Inr u, s') \<Longrightarrow>
     \<exists>n url z. getitem d ''name'' = Inr n \<and> getitem d ''file_url'' = Inr url \<and>
               getitem d ''size_mb'' = Inr z"
  by (auto simp: download_single_model_def split: sum.splits)

lemma update_single_model_cases [consumes 0, case_names Skipped LookupRaised NotFound DownloadRaised MergeRaised Completed]:
  obtains
    (Skipped) r0 s0 where "fetch_remote_model_list w s = (r0, s0)" "r0 = None \<or> r0 = Some []"
      "update_single_model w s model_id = (Inr (), emit PrintCouldNotFetch s0)"
  | (LookupRaised) ms s0 e where "fetch_remote_model_list w s = (Some ms, s0)" "ms \<noteq> []"
      "find_model ms model_id = Inl e" "update_single_model w s model_id = (Inl e, s0)"
  | (NotFound) ms s0 where "fetch_remote_model_list w s = (Some ms, s0)" "ms \<noteq> []"
      "find_model ms model_id = Inr None"
      "update_single_model w s model_id = (Inr (), emit (PrintNotFound model_id) s0)"
  | (DownloadRaised) ms s0 d e s1 where "fetch_remote_model_list w s = (Some ms, s0)" "ms \<noteq> []"
      "find_model ms model_id = Inr (Some d)"
      "download_single_model w s0 d = (Inl e, s1)" "update_single_model w s model_id = (Inl e, s1)"
  | (MergeRaised) ms s0 d s1 e s2 where "fetch_remote_model_list w s = (Some ms, s0)" "ms \<noteq> []"
      "find_model ms model_id = Inr (Some d)"
      "download_single_model w s0 d = (Inr (), s1)"
      "update_config_single_model s1 d = (Inl e, s2)"
      "update_single_model w s model_id = (Inl e, s2)"
  | (Completed) ms s0 d s1 s2 n where "fetch_remote_model_list w s = (Some ms, s0)" "ms \<noteq> []"
      "find_model ms model_id = Inr (Some d)"
      "download_single_model w s0 d = (Inr (), s1)"
      "update_config_single_model s1 d = (Inr (), s2)"
      "getitem d ''name'' = Inr n"
      "update_single_model w s model_id = (Inr (), emit (PrintCompletedFor n) s2)"
proof -
  obtain r0 s0 where f: "fetch_remote_model_list w s = (r0, s0)"
    by (cases "fetch_remote_model_list w s")
  show thesis
  proof (cases "r0 = None \<or> r0 = Some []")
    case True
    then have "update_single_model w s model_id = (Inr (), emit PrintCouldNotFetch s0)"
      using f by (auto simp: update_single_model_def)
    with f True show thesis by (rule Skipped)
  next
    case False
    then obtain m ms' where r0: "r0 = Some (m # ms')"
      by (cases r0) (auto simp: neq_Nil_conv)
    let ?ms = "m # ms'"
    have f': "fetch_remote_model_list w s = (Some ?ms, s0)" using f r0 by simp
    show thesis
    proof (cases "find_model ?ms model_id")
      case (Inl e)
      with f' have "update_single_model w s model_id = (Inl e, s0)"
        by (simp add: update_single_model_def)
      with f' Inl show thesis by (auto intro: LookupRaised)
    next
      case (Inr found)
      show thesis
      proof (cases found)
        case None
        with f' Inr have "update_single_model w s model_id = (Inr (), emit (PrintNotFound model_id) s0)"
          by (simp add: update_single_model_def)
        with f' Inr None show thesis by (auto intro: NotFound)
      next
        case (Some d)
        obtain r1 s1 where dl: "download_single_model w s0 d = (r1, s1)"
          by (cases "download_single_model w s0 d")
        show thesis
        proof (cases r1)
          case (Inl e)
          with f' Inr Some dl have "update_single_model w s model_id = (Inl e, s1)"
            by (simp add: update_single_model_def)
          with f' Inr Some dl Inl show thesis by (auto intro: DownloadRaised)
        next
          case r1: (Inr u)
          from dsm_returned_fields dl r1 obtain n where n: "getitem d ''name'' = Inr n" by blast
          obtain r2 s2 where c: "update_config_single_model s1 d = (r2, s2)"
            by (cases "update_config_single_model s1 d")
          show thesis
          proof (cases r2)
            case (Inl e)
            with f' Inr Some dl r1 c have "update_single_model w s model_id = (Inl e, s2)"
              by (simp add: update_single_model_def)
            with f' Inr Some dl r1 c Inl show thesis by (auto intro: MergeRaised)
          next
            case r2: (Inr u')
            with f' Inr Some dl r1 c n
            have "update_single_model w s model_id = (Inr (), emit (PrintCompletedFor n) s2)"
              by (simp add: update_single_model_def)
            with f' Inr Some dl r1 c r2 n show thesis by (auto intro: Completed)
          qed
        qed
      qed
    qed
  qed
qed

lemma emit_calls_for [simp]:
  "calls_for p (trace (emit e s)) = calls_for p (trace s) @ (if is_call_for p e then [e] else [])"
  by (simp add: emit_def calls_for_def)

lemma emit_fs [simp]: "fs (emit e s) = fs s"
  by (simp add: emit_def)

lemma fetch_present:
  assumes "fetch_remote_model_list w s = (r, s')"
  shows "fs s' = fs s" and "calls_for p (trace s') = calls_for p (trace s)"
proof -
  from fetch_store [OF assms] show "fs s' = fs s" by (simp add: store_unchanged_def)
  from fetch_store [OF assms] show "calls_for p (trace s') = calls_for p (trace s)"
    by (intro calls_for_same) simp
qed

lemma iur_present:
  assumes "is_update_required w s ms = (r, s')"
  shows "fs s' = fs s" and "calls_for p (trace s') = calls_for p (trace s)"
proof -
  from iur_store [OF assms] show "fs s' = fs s" by (simp add: store_unchanged_def)
  from iur_store [OF assms] show "calls_for p (trace s') = calls_for p (trace s)"
    by (intro calls_for_same) simp
qed

lemma uc_present:
  assumes "update_configs s ds = (r, s')"
  shows "fs s' = fs s" and "calls_for p (trace s') = calls_for p (trace s)"
  using uc_frame [OF assms] by simp_all

lemma ucsm_present:
  assumes "update_config_single_model s d = (r, s')"
  shows "fs s' = fs s" and "calls_for p (trace s') = calls_for p (trace s)"
  using ucsm_frame [OF assms] by simp_all

lemma update_models_present:
  assumes "keeps_files w" and "path_exists w (fs s) p"
  shows "path_exists w (fs (snd (update_models w s))) p \<and>
         calls_for p (trace (snd (update_models w s))) = calls_for p (trace s)"
proof (cases rule: update_models_cases [of w s])
  case (Skipped r0 s0)
  with fetch_present [OF Skipped(1)] assms(2) show ?thesis by simp
next
  case (ScanRaised ms s0 e s1)
  with fetch_present [OF ScanRaised(1)] iur_present [OF ScanRaised(3)] assms(2)
  show ?thesis by simp
next
  case (NoUpdate ms s0 s1)
  with fetch_present [OF NoUpdate(1)] iur_present [OF NoUpdate(3)] assms(2)
  show ?thesis by simp
next
  case (DownloadRaised ms s0 s1 e s2)
  from fetch_present [OF DownloadRaised(1)] iur_present [OF DownloadRaised(3)] assms(2)
  have a: "path_exists w (fs s1) p" "calls_for p (trace s1) = calls_for p (trace s)" by simp_all
  from dnm_present [OF assms(1) a(1) DownloadRaised(4)] a(2) DownloadRaised(5)
  show ?thesis by simp
next
  case (MergeRaised ms s0 s1 s2 e s3)
  from fetch_present [OF MergeRaised(1)] iur_present [OF MergeRaised(3)] assms(2)
  have a: "path_exists w (fs s1) p" "calls_for p (trace s1) = calls_for p (trace s)" by simp_all
  from dnm_present [OF assms(1) a(1) MergeRaised(4)] a(2) uc_present [OF MergeRaised(5)]
    MergeRaised(6)
  show ?thesis by simp
next
  case (Completed ms s0 s1 s2 s3)
  from fetch_present [OF Completed(1)] iur_present [OF Completed(3)] assms(2)
  have a: "path_exists w (fs s1) p" "calls_for p (trace s1) = calls_for p (trace s)" by simp_all
  from dnm_present [OF assms(1) a(1) Completed(4)] a(2) uc_present [OF Completed(5)]
    Completed(6)
  show ?thesis by simp
qed

lemma update_single_model_present:
  assumes "keeps_files w" and "path_exists w (fs s) p"
  shows "path_exists w (fs (snd (update_single_model w s model_id))) p \<and>
         calls_for p (trace (snd (update_single_model w s model_id))) = calls_for p (trace s)"
proof (cases rule: update_single_model_cases [of w s model_id])
  case (Skipped r0 s0)
  with fetch_present [OF Skipped(1)] assms(2) show ?thesis by simp
next
  case (LookupRaised ms s0 e)
  with fetch_present [OF LookupRaised(1)] assms(2) show ?thesis by simp
next
  case (NotFound ms s0)
  with fetch_present [OF NotFound(1)] assms(2) show ?thesis by simp
next
  case (DownloadRaised ms s0 d e s1)
  from fetch_present [OF DownloadRaised(1)] assms(2)
  have a: "path_exists w (fs s0) p" "calls_for p (trace s0) = calls_for p (trace s)" by simp_all
  from dsm_present [OF assms(1) a(1) DownloadRaised(4)] a(2) DownloadRaised(5)
  show ?thesis by simp
next
  case (MergeRaised ms s0 d s1 e s2)
  from fetch_present [OF MergeRaised(1)] assms(2)
  have a: "path_exists w (fs s0) p" "calls_for p (trace s0) = calls_for p (trace s)" by simp_all
  from dsm_present [OF assms(1) a(1) MergeRaised(4)] a(2) ucsm_present [OF MergeRaised(5)]
    MergeRaised(6)
  show ?thesis by simp
next
  case (Completed ms s0 d s1 s2 n)
  from fetch_present [OF Completed(1)] assms(2)
  have a: "path_exists w (fs s0) p" "calls_for p (trace s0) = calls_for p (trace s)" by simp_all
  from dsm_present [OF assms(1) a(1) Completed(4)] a(2) ucsm_present [OF Completed(5)]
    Completed(7)
  show ?thesis by simp
qed

text \<open>
  C6. A destination file that exists when a pass starts is never transferred again: given
  that \<^verbatim>\<open>download_file\<close> removes no file, a pass of \<^verbatim>\<open>update_models\<close> or of
  \<^verbatim>\<open>update_single_model\<close>, whether it returns or raises, adds no call of
  \<^verbatim>\<open>download_file\<close> for that file name to the trace, and the file still exists
  afterwards. Nothing about the file but its existence is looked at, so its content and size
  play no part.
\<close>

theorem existing_file_never_transferred:
  assumes "keeps_files w" and "path_exists w (fs s) p"
  shows "calls_for p (trace (snd (update_models w s))) = calls_for p (trace s) \<and>
         calls_for p (trace (snd (update_single_model w s model_id))) = calls_for p (trace s) \<and>
         path_exists w (fs (snd (update_models w s))) p \<and>
         path_exists w (fs (snd (update_single_model w s model_id))) p"
  using update_models_present [OF assms] update_single_model_present [OF assms] by simp

lemma keeps_files_plain_dir: "keeps_files (plain_dir a b broken)"
  by (simp add: keeps_files_def plain_dir_def)

theorem existing_file_never_transferred_witness:
  "calls_for ''v1.safetensors''
     (trace (snd (update_models
        (plain_dir (Payload (JArr [descriptor ''m1'' ''http://x/m1'' 10]))
                   (Payload (JArr [vae_descriptor ''v1'' ''http://x/v1'' 5])) [])
        (fresh [''v1.safetensors''])))) = [] \<and>
   calls_for ''v1.safetensors''
     (trace (snd (update_single_model
        (plain_dir (Payload (JArr [descriptor ''m1'' ''http://x/m1'' 10]))
                   (Payload (JArr [vae_descriptor ''v1'' ''http://x/v1'' 5])) [])
        (fresh [''v1.safetensors'']) ''v1''))) = []"
proof -
  let ?w = "plain_dir (Payload (JArr [descriptor ''m1'' ''http://x/m1'' 10]))
                   (Payload (JArr [vae_descriptor ''v1'' ''http://x/v1'' 5])) []"
  let ?s = "fresh [''v1.safetensors'']"
  have k: "keeps_files ?w" by (rule keeps_files_plain_dir)
  have e: "path_exists ?w (fs ?s) ''v1.safetensors''" by (simp add: plain_dir_def fresh_def)
  have t: "calls_for ''v1.safetensors'' (trace ?s) = []" by (simp add: fresh_def calls_for_def)
  from existing_file_never_transferred [OF k e, of "''v1''"] t show ?thesis by simp
qed

section \<open>A pass that finds something missing\<close>

lemma ucsm_configured:
  "update_config_single_model s d = (Inr u, s') \<Longrightarrow> configured s' d"
  by (auto simp: update_config_single_model_def configured_def split: sum.splits if_splits)

lemma configured_kept:
  "configured s d \<Longrightarrow> entries_kept s s' \<Longrightarrow> configured s' d"
  unfolding configured_def entries_kept_def
  by (auto split: sum.splits if_splits)

lemma configured_noop:
  "configured s d \<Longrightarrow> update_config_single_model s d = (Inr (), s)"
  by (auto simp: update_config_single_model_def configured_def split: sum.splits if_splits)

lemma uc_configured:
  "update_configs s ds = (Inr u, s') \<Longrightarrow> \<forall>d\<in>set ds. configured s' d"
proof (induction ds arbitrary: s)
  case Nil
  then show ?case by simp
next
  case (Cons d ds)
  obtain r1 s1 where c: "update_config_single_model s d = (r1, s1)"
    by (cases "update_config_single_model s d")
  with Cons.prems obtain u1 where r1: "r1 = Inr u1" by (cases r1) auto
  with c Cons.prems have rest: "update_configs s1 ds = (Inr u, s')" by simp
  from c r1 have "configured s1 d" by (auto dest: ucsm_configured)
  moreover have "entries_kept s1 s'" using uc_kept [of s1 ds] rest by simp
  ultimately have "configured s' d" by (rule configured_kept)
  with Cons.IH [OF rest] show ?case by simp
qed

lemma uc_noop:
  "\<forall>d\<in>set ds. configured s d \<Longrightarrow> update_configs s ds = (Inr (), s)"
  by (induction ds) (simp_all add: configured_noop)






lemma iur_True_nonempty:
  "is_update_required w s ms = (Inr True, s') \<Longrightarrow> ms \<noteq> []"
  by (auto simp: is_update_required_def split: sum.splits)


lemma configured_emit: "configured (emit e s) d = configured s d"
  by (simp add: configured_def emit_def split: sum.splits)




section \<open>A download that fails\<close>

lemma dnm_append:
  "download_new_models w s (xs @ ys) =
     (case download_new_models w s xs of
        (Inl e, s') \<Rightarrow> (Inl e, s')
      | (Inr u, s') \<Rightarrow> download_new_models w s' ys)"
  by (induction xs arbitrary: s) (auto split: prod.splits sum.splits)


lemma dnm_continues_after:
  assumes "download_new_models w s pre = (Inr (), t)"
    and "download_single_model w t d = (Inr (), t')"
  shows "download_new_models w s (pre @ d # post) = download_new_models w t' post"
  using assms by (simp add: dnm_append)





section \<open>One model by name\<close>

lemma find_model_None:
  "find_model ms model_id = Inr None \<Longrightarrow> \<forall>d\<in>set ms. getitem d ''name'' \<noteq> Inr (JStr model_id)"
  by (induction ms) (auto split: sum.splits if_splits)












section \<open>Two passes in a row\<close>

lemma fetch_loop_result_indep:
  "fst (fetch_loop urls c s) = fst (fetch_loop urls c s')"
  by (induction urls c s arbitrary: s' rule: fetch_loop.induct) simp_all

lemma fetch_result_indep:
  "fst (fetch_remote_model_list w s) = fst (fetch_remote_model_list w s')"
  unfolding fetch_remote_model_list_def by (rule fetch_loop_result_indep)

lemma fetch_loop_trace:
  "\<exists>evs. trace (snd (fetch_loop urls c s)) = trace s @ evs"
  by (induction urls c s rule: fetch_loop.induct) (auto simp: emit_def)

lemma fetch_trace:
  "fetch_remote_model_list w s = (r, s') \<Longrightarrow> \<exists>evs. trace s' = trace s @ evs"
  using fetch_loop_trace [of "[(model_config_url w, model_config_response w),
       (vae_config_url w, vae_config_response w)]" "[]" s]
  by (simp add: fetch_remote_model_list_def)

lemma iur_trace:
  "is_update_required w s ms = (r, s') \<Longrightarrow> \<exists>evs. trace s' = trace s @ evs"
  by (auto simp: is_update_required_def Let_def emit_def split: sum.splits if_splits)

lemma iur_fs_only:
  "fs s = fs t \<Longrightarrow> fst (is_update_required w s ms) = fst (is_update_required w t ms)"
  by (auto simp: is_update_required_def Let_def split: sum.splits)

lemma present_locally_fs:
  "fs s = fs t \<Longrightarrow> present_locally w s d = present_locally w t d"
  by (simp add: present_locally_def split: sum.splits)

lemma dsm_noop:
  "present_locally w s d \<Longrightarrow> download_single_model w s d = (Inr (), s)"
  by (auto simp: present_locally_def download_single_model_def Let_def split: sum.splits)

lemma dnm_noop:
  "\<forall>d\<in>set ds. present_locally w s d \<Longrightarrow> download_new_models w s ds = (Inr (), s)"
  by (induction ds) (simp_all add: dsm_noop)

lemma dsm_outcome:
  assumes "download_single_model w s d = (Inr (), s')"
  shows "\<exists>n evs. getitem d ''name'' = Inr n \<and> \<not> isl (getitem d ''file_url'') \<and>
           \<not> isl (getitem d ''size_mb'') \<and> trace s' = trace s @ evs \<and>
           ((s' = s \<and> path_exists w (fs s) (file_name_of w n)) \<or>
            (\<exists>u z. CallDownloadFile u (file_name_of w n) z \<in> set evs))"
  using assms
  by (auto simp: download_single_model_def Let_def emit_def
           split: sum.splits if_splits prod.splits option.splits)

lemma dnm_outcome:
  assumes "keeps_files w"
  shows "download_new_models w s ds = (Inr (), s') \<Longrightarrow>
     \<exists>evs. trace s' = trace s @ evs \<and>
       (\<forall>d\<in>set ds. \<exists>n. getitem d ''name'' = Inr n \<and> \<not> isl (getitem d ''file_url'') \<and>
           \<not> isl (getitem d ''size_mb'') \<and>
           (path_exists w (fs s') (file_name_of w n) \<or>
            (\<exists>u z. CallDownloadFile u (file_name_of w n) z \<in> set evs)))"
proof (induction ds arbitrary: s)
  case Nil
  then show ?case by simp
next
  case (Cons d ds)
  obtain r1 sa where d1: "download_single_model w s d = (r1, sa)"
    by (cases "download_single_model w s d")
  with Cons.prems have r1: "r1 = Inr ()" by (cases r1) auto
  with d1 Cons.prems have rest: "download_new_models w sa ds = (Inr (), s')" by simp
  from dsm_outcome [OF d1 [unfolded r1]] obtain n e1 where
    n: "getitem d ''name'' = Inr n" "\<not> isl (getitem d ''file_url'')" "\<not> isl (getitem d ''size_mb'')"
    and t1: "trace sa = trace s @ e1"
    and o: "(sa = s \<and> path_exists w (fs s) (file_name_of w n)) \<or>
            (\<exists>u z. CallDownloadFile u (file_name_of w n) z \<in> set e1)"
    by blast
  from Cons.IH [OF rest] obtain e2 where t2: "trace s' = trace sa @ e2"
    and tail: "\<forall>d\<in>set ds. \<exists>n. getitem d ''name'' = Inr n \<and> \<not> isl (getitem d ''file_url'') \<and>
           \<not> isl (getitem d ''size_mb'') \<and>
           (path_exists w (fs s') (file_name_of w n) \<or>
            (\<exists>u z. CallDownloadFile u (file_name_of w n) z \<in> set e2))"
    by blast
  have "path_exists w (fs s') (file_name_of w n) \<or>
        (\<exists>u z. CallDownloadFile u (file_name_of w n) z \<in> set (e1 @ e2))"
  proof (cases "sa = s \<and> path_exists w (fs s) (file_name_of w n)")
    case True
    then have "path_exists w (fs sa) (file_name_of w n)" by simp
    from dnm_present [OF assms this rest] show ?thesis by simp
  next
    case False
    with o show ?thesis by auto
  qed
  with n have hd: "\<exists>n. getitem d ''name'' = Inr n \<and> \<not> isl (getitem d ''file_url'') \<and>
           \<not> isl (getitem d ''size_mb'') \<and>
           (path_exists w (fs s') (file_name_of w n) \<or>
            (\<exists>u z. CallDownloadFile u (file_name_of w n) z \<in> set (e1 @ e2)))"
    by blast
  from tail have tl: "\<forall>d\<in>set ds. \<exists>n. getitem d ''name'' = Inr n \<and> \<not> isl (getitem d ''file_url'') \<and>
           \<not> isl (getitem d ''size_mb'') \<and>
           (path_exists w (fs s') (file_name_of w n) \<or>
            (\<exists>u z. CallDownloadFile u (file_name_of w n) z \<in> set (e1 @ e2)))"
    by fastforce
  from t1 t2 have "trace s' = trace s @ (e1 @ e2)" by simp
  with hd tl show ?case by (intro exI [of _ "e1 @ e2"]) simp
qed

lemma store_unchanged_emit: "store_unchanged t s \<Longrightarrow> store_unchanged t (emit e s)"
  by (simp add: store_unchanged_def emit_def)

lemma store_unchanged_trans:
  "store_unchanged s s' \<Longrightarrow> store_unchanged s' s'' \<Longrightarrow> store_unchanged s s''"
  by (simp add: store_unchanged_def)

lemma download_calls_emit:
  "\<not> is_call e \<Longrightarrow> download_calls (trace (emit e s)) = download_calls (trace s)"
  by (simp add: download_calls_def emit_def)

lemma quiet_through_scan:
  assumes "fetch_remote_model_list w t = (r0, s0)" and "is_update_required w s0 ms = (r1, s1)"
  shows "store_unchanged t s1 \<and> download_calls (trace s1) = download_calls (trace t)"
  using fetch_store [OF assms(1)] iur_store [OF assms(2)]
  by (auto simp: store_unchanged_def)

lemma quiet_if_not_required:
  assumes "\<And>ms s0. fetch_remote_model_list w t = (Some ms, s0) \<Longrightarrow>
             fst (is_update_required w s0 ms) \<noteq> Inr True"
  shows "quiet w t"
proof (cases rule: update_models_cases [of w t])
  case (Skipped r0 s0)
  with fetch_store [OF Skipped(1)] show ?thesis
    by (simp add: quiet_def store_unchanged_emit download_calls_emit)
next
  case (ScanRaised ms s0 e s1)
  with quiet_through_scan [OF ScanRaised(1,3)] show ?thesis by (simp add: quiet_def)
next
  case (NoUpdate ms s0 s1)
  with quiet_through_scan [OF NoUpdate(1,3)] show ?thesis
    by (simp add: quiet_def store_unchanged_emit download_calls_emit)
next
  case (DownloadRaised ms s0 s1 e s2)
  with assms [OF DownloadRaised(1)] show ?thesis by simp
next
  case (MergeRaised ms s0 s1 s2 e s3)
  with assms [OF MergeRaised(1)] show ?thesis by simp
next
  case (Completed ms s0 s1 s2 s3)
  with assms [OF Completed(1)] show ?thesis by simp
qed

lemma quiet_if_settled:
  assumes "\<And>ms s0. fetch_remote_model_list w t = (Some ms, s0) \<Longrightarrow>
             \<forall>d\<in>set ms. present_locally w t d \<and> configured t d"
  shows "quiet w t"
proof -
  have settled: "download_new_models w s1 ms = (Inr (), s1) \<and> update_configs s1 ms = (Inr (), s1)"
    if f: "fetch_remote_model_list w t = (Some ms, s0)"
      and i: "is_update_required w s0 ms = (r1, s1)" for ms s0 r1 s1
  proof -
    from quiet_through_scan [OF f i] have st: "store_unchanged t s1" by simp
    then have "fs t = fs s1" by (simp add: store_unchanged_def)
    from present_locally_fs [OF this] assms [OF f]
    have p: "\<forall>d\<in>set ms. present_locally w s1 d" by simp
    from st have "entries_kept t s1" by (rule store_unchanged_kept)
    with assms [OF f] have c: "\<forall>d\<in>set ms. configured s1 d" by (auto intro: configured_kept)
    from dnm_noop [OF p] uc_noop [OF c] show ?thesis by simp
  qed
  show ?thesis
  proof (cases rule: update_models_cases [of w t])
    case (Skipped r0 s0)
    with fetch_store [OF Skipped(1)] show ?thesis
      by (simp add: quiet_def store_unchanged_emit download_calls_emit)
  next
    case (ScanRaised ms s0 e s1)
    with quiet_through_scan [OF ScanRaised(1,3)] show ?thesis by (simp add: quiet_def)
  next
    case (NoUpdate ms s0 s1)
    with quiet_through_scan [OF NoUpdate(1,3)] show ?thesis
      by (simp add: quiet_def store_unchanged_emit download_calls_emit)
  next
    case (DownloadRaised ms s0 s1 e s2)
    with settled [OF DownloadRaised(1,3)] show ?thesis by simp
  next
    case (MergeRaised ms s0 s1 s2 e s3)
    with settled [OF MergeRaised(1,3)] show ?thesis by simp
  next
    case (Completed ms s0 s1 s2 s3)
    from settled [OF Completed(1,3)] Completed(4,5) have "s2 = s1" "s3 = s1" by simp_all
    with Completed(6) quiet_through_scan [OF Completed(1,3)] show ?thesis
      by (simp add: quiet_def store_unchanged_emit download_calls_emit)
  qed
qed

lemma second_pass_quiet:
  assumes k: "keeps_files w" and run: "update_models w s = (Inr (), s1)"
    and succ: "downloads_succeeded w s s1"
  shows "quiet w s1"
proof (cases rule: update_models_cases [of w s])
  case (Skipped r0 s0)
  show ?thesis
  proof (rule quiet_if_not_required)
    fix ms s0' assume f2: "fetch_remote_model_list w s1 = (Some ms, s0')"
    from fetch_result_indep [of w s1 s] f2 Skipped(1) have "r0 = Some ms" by simp
    with Skipped(2) have "ms = []" by simp
    then show "fst (is_update_required w s0' ms) \<noteq> Inr True"
      using iur_True_nonempty [of w s0' ms] by (cases "is_update_required w s0' ms") auto
  qed
next
  case (ScanRaised ms s0 e s1a)
  with run show ?thesis by simp
next
  case (NoUpdate ms s0 s1a)
  with run have s1: "s1 = emit PrintNoUpdatesRequired s1a" by simp
  from iur_store [OF NoUpdate(3)] have fs1: "fs s1 = fs s0"
    by (simp add: s1 store_unchanged_def)
  show ?thesis
  proof (rule quiet_if_not_required)
    fix ms' s0' assume f2: "fetch_remote_model_list w s1 = (Some ms', s0')"
    from fetch_result_indep [of w s1 s] f2 NoUpdate(1) have ms': "ms' = ms" by simp
    from fetch_store [OF f2] fs1 have "fs s0' = fs s0" by (simp add: store_unchanged_def)
    from iur_fs_only [OF this, of w ms] NoUpdate(3)
    show "fst (is_update_required w s0' ms') \<noteq> Inr True" by (simp add: ms')
  qed
next
  case (DownloadRaised ms s0 s1a e s2)
  with run show ?thesis by simp
next
  case (MergeRaised ms s0 s1a s2 e s3)
  with run show ?thesis by simp
next
  case (Completed ms s0 s1a s2 s3)
  with run have s1: "s1 = emit PrintUpdatesCompleted s3" by simp
  from uc_frame [OF Completed(5)] have fr: "fs s3 = fs s2" "trace s3 = trace s2" by simp_all
  from fetch_trace [OF Completed(1)] obtain e_f where tf: "trace s0 = trace s @ e_f" by blast
  from iur_trace [OF Completed(3)] obtain e_i where ti: "trace s1a = trace s0 @ e_i" by blast
  from dnm_outcome [OF k Completed(4)] obtain evs where td: "trace s2 = trace s1a @ evs"
    and each: "\<forall>d\<in>set ms. \<exists>n. getitem d ''name'' = Inr n \<and> \<not> isl (getitem d ''file_url'') \<and>
           \<not> isl (getitem d ''size_mb'') \<and>
           (path_exists w (fs s2) (file_name_of w n) \<or>
            (\<exists>u z. CallDownloadFile u (file_name_of w n) z \<in> set evs))"
    by blast
  have ne: "new_events s s1 = e_f @ e_i @ evs @ [PrintUpdatesCompleted]"
    by (simp add: new_events_def s1 emit_def fr td ti tf)
  have fs1: "fs s1 = fs s2" by (simp add: s1 fr)
  have present: "present_locally w s1 d" if d: "d \<in> set ms" for d
  proof -
    from each d obtain n where n: "getitem d ''name'' = Inr n" "\<not> isl (getitem d ''file_url'')"
        "\<not> isl (getitem d ''size_mb'')"
      and o: "path_exists w (fs s2) (file_name_of w n) \<or>
            (\<exists>u z. CallDownloadFile u (file_name_of w n) z \<in> set evs)" by blast
    have "path_exists w (fs s1) (file_name_of w n)"
    proof (cases "path_exists w (fs s2) (file_name_of w n)")
      case True
      with fs1 show ?thesis by simp
    next
      case False
      with o obtain u z where "CallDownloadFile u (file_name_of w n) z \<in> set evs" by blast
      then have "CallDownloadFile u (file_name_of w n) z \<in> set (new_events s s1)"
        by (simp add: ne)
      with succ show ?thesis unfolding downloads_succeeded_def by blast
    qed
    with n show ?thesis by (simp add: present_locally_def)
  qed
  have conf: "configured s1 d" if d: "d \<in> set ms" for d
    using uc_configured [OF Completed(5)] d by (simp add: s1 configured_emit)
  show ?thesis
  proof (rule quiet_if_settled)
    fix ms' s0' assume f2: "fetch_remote_model_list w s1 = (Some ms', s0')"
    from fetch_result_indep [of w s1 s] f2 Completed(1) have "ms' = ms" by simp
    with present conf show "\<forall>d\<in>set ms'. present_locally w s1 d \<and> configured s1 d" by simp
  qed
qed

text \<open>
  C7. Let a pass of \<^verbatim>\<open>update_models\<close> return, with every file it called \<^verbatim>\<open>download_file\<close>
  for in place afterwards, and let \<^verbatim>\<open>download_file\<close> remove no file. A second pass right
  after it, against the same catalog, calls \<^verbatim>\<open>download_file\<close> for nothing and merges
  nothing: the files and both configuration partitions stay as the first pass left them.
\<close>

theorem second_pass_changes_nothing:
  assumes "keeps_files w" and "update_models w s = (Inr (), s1)"
    and "downloads_succeeded w s s1"
  shows "store_unchanged s1 (snd (update_models w s1)) \<and>
         download_calls (trace (snd (update_models w s1))) = download_calls (trace s1)"
  using second_pass_quiet [OF assms] by (simp add: quiet_def)

theorem second_pass_changes_nothing_witness:
  "update_models
     (plain_dir (Payload (JArr [descriptor ''m1'' ''http://x/m1'' 10]))
                (Payload (JArr [vae_descriptor ''v1'' ''http://x/v1'' 5])) [])
     (fresh [])
   = (Inr (),
      \<lparr>fs = [''m1.safetensors'', ''v1.safetensors''],
       vae_configs = [KStr ''v1'' \<mapsto> vae_descriptor ''v1'' ''http://x/v1'' 5],
       model_configs = [KStr ''m1'' \<mapsto> descriptor ''m1'' ''http://x/m1'' 10],
       trace = [PrintMissing {KStr ''m1'', KStr ''v1''},
                PrintDownloading (JStr ''m1''),
                CallDownloadFile (JStr ''http://x/m1'') ''m1.safetensors'' (JInt 10485760),
                PrintDownloading (JStr ''v1''),
                CallDownloadFile (JStr ''http://x/v1'') ''v1.safetensors'' (JInt 5242880),
                PrintUpdatesCompleted]\<rparr>) \<and>
   store_unchanged
     \<lparr>fs = [''m1.safetensors'', ''v1.safetensors''],
       vae_configs = [KStr ''v1'' \<mapsto> vae_descriptor ''v1'' ''http://x/v1'' 5],
       model_configs = [KStr ''m1'' \<mapsto> descriptor ''m1'' ''http://x/m1'' 10],
       trace = [PrintMissing {KStr ''m1'', KStr ''v1''},
                PrintDownloading (JStr ''m1''),
                CallDownloadFile (JStr ''http://x/m1'') ''m1.safetensors'' (JInt 10485760),
                PrintDownloading (JStr ''v1''),
                CallDownloadFile (JStr ''http://x/v1'') ''v1.safetensors'' (JInt 5242880),
                PrintUpdatesCompleted]\<rparr>
     (snd (update_models
        (plain_dir (Payload (JArr [descriptor ''m1'' ''http://x/m1'' 10]))
                   (Payload (JArr [vae_descriptor ''v1'' ''http://x/v1'' 5])) [])
        \<lparr>fs = [''m1.safetensors'', ''v1.safetensors''],
          vae_configs = [KStr ''v1'' \<mapsto> vae_descriptor ''v1'' ''http://x/v1'' 5],
          model_configs = [KStr ''m1'' \<mapsto> descriptor ''m1'' ''http://x/m1'' 10],
          trace = [PrintMissing {KStr ''m1'', KStr ''v1''},
                PrintDownloading (JStr ''m1''),
                CallDownloadFile (JStr ''http://x/m1'') ''m1.safetensors'' (JInt 10485760),
                PrintDownloading (JStr ''v1''),
                CallDownloadFile (JStr ''http://x/v1'') ''v1.safetensors'' (JInt 5242880),
                PrintUpdatesCompleted]\<rparr>)) \<and>
   download_calls (trace (snd (update_models
        (plain_dir (Payload (JArr [descriptor ''m1'' ''http://x/m1'' 10]))
                   (Payload (JArr [vae_descriptor ''v1'' ''http://x/v1'' 5])) [])
        \<lparr>fs = [''m1.safetensors'', ''v1.safetensors''],
          vae_configs = [KStr ''v1'' \<mapsto> vae_descriptor ''v1'' ''http://x/v1'' 5],
          model_configs = [KStr ''m1'' \<mapsto> descriptor ''m1'' ''http://x/m1'' 10],
          trace = [PrintMissing {KStr ''m1'', KStr ''v1''},
                PrintDownloading (JStr ''m1''),
                CallDownloadFile (JStr ''http://x/m1'') ''m1.safetensors'' (JInt 10485760),
                PrintDownloading (JStr ''v1''),
                CallDownloadFile (JStr ''http://x/v1'') ''v1.safetensors'' (JInt 5242880),
                PrintUpdatesCompleted]\<rparr>)))
   = [CallDownloadFile (JStr ''http://x/m1'') ''m1.safetensors'' (JInt 10485760),
      CallDownloadFile (JStr ''http://x/v1'') ''v1.safetensors'' (JInt 5242880)]"
proof -
  let ?w = "plain_dir (Payload (JArr [descriptor ''m1'' ''http://x/m1'' 10]))
                (Payload (JArr [vae_descriptor ''v1'' ''http://x/v1'' 5])) []"
  let ?s1 = "\<lparr>fs = [''m1.safetensors'', ''v1.safetensors''],
       vae_configs = [KStr ''v1'' \<mapsto> vae_descriptor ''v1'' ''http://x/v1'' 5],
       model_configs = [KStr ''m1'' \<mapsto> descriptor ''m1'' ''http://x/m1'' 10],
       trace = [PrintMissing {KStr ''m1'', KStr ''v1''},
                PrintDownloading (JStr ''m1''),
                CallDownloadFile (JStr ''http://x/m1'') ''m1.safetensors'' (JInt 10485760),
                PrintDownloading (JStr ''v1''),
                CallDownloadFile (JStr ''http://x/v1'') ''v1.safetensors'' (JInt 5242880),
                PrintUpdatesCompleted]\<rparr>"
  have k: "keeps_files ?w" by (rule keeps_files_plain_dir)
  have run: "update_models ?w (fresh []) = (Inr (), ?s1)"
    by (simp add: update_models_def fetch_remote_model_list_def is_update_required_def
        local_model_names_def download_single_model_def update_config_single_model_def
        file_name_of_def plain_dir_def fresh_def emit_def descriptor_def vae_descriptor_def Let_def)
  have succ: "downloads_succeeded ?w (fresh []) ?s1"
    by (auto simp: downloads_succeeded_def new_events_def fresh_def plain_dir_def)
  from second_pass_changes_nothing [OF k run succ] run
  show ?thesis by (simp add: download_calls_def)
qed

end
